theory Spec2Isabelle
  imports Complex_Main "HOL-Library.Word"
begin

section \<open>The header \<^verbatim>\<open>math-functions.hpp\<close>, namespace \<^verbatim>\<open>fn_math\<close>\<close>

text \<open>
  Every function of the header is a template over the scalar type \<^verbatim>\<open>T\<close> (default
  \<^verbatim>\<open>double\<close>). The embedding instantiates \<^verbatim>\<open>T\<close> with the real numbers: comparisons,
  the literal constants and the formulas are those of the source, and \<^verbatim>\<open>std::exp\<close>,
  \<^verbatim>\<open>std::log\<close>, \<^verbatim>\<open>std::sqrt\<close> are the real functions \<^term>\<open>exp\<close>, \<^term>\<open>ln\<close>, \<^term>\<open>sqrt\<close>.
  Rounding, overflow, underflow, infinities and not-a-number values of a binary
  floating-point \<^verbatim>\<open>T\<close> are outside this embedding.
\<close>

type_synonym scalar = real

subsection \<open>Functions that only compare and select\<close>

text \<open>
  \<^verbatim>\<open>inline unsigned short BinaryStepFn(T x) { return x < 0 ? 0 : 1; }\<close>
  The result type is \<^verbatim>\<open>unsigned short\<close>, taken as 16 bits wide.
\<close>

definition BinaryStepFn :: "scalar \<Rightarrow> 16 word" where
  "BinaryStepFn x = (if x < 0 then 0 else 1)"

text \<open>\<^verbatim>\<open>inline T RectifiedLinearUnitFn(T x) { return x > 0 ? x : 0; }\<close>\<close>

definition RectifiedLinearUnitFn :: "scalar \<Rightarrow> scalar" where
  "RectifiedLinearUnitFn x = (if x > 0 then x else 0)"

subsection \<open>Functions built on the exponential\<close>

text \<open>
  \<^verbatim>\<open>return (std::exp(x) - std::exp(-x)) / (std::exp(x) + std::exp(-x));\<close>
  Over the reals no exponential overflows, so this is the formula and not the
  function on a floating-point \<^verbatim>\<open>T\<close>, where a large argument gives infinity over
  infinity.
\<close>

definition HyperbolicTangentFn :: "scalar \<Rightarrow> scalar" where
  "HyperbolicTangentFn x = (exp x - exp (- x)) / (exp x + exp (- x))"

text \<open>\<^verbatim>\<open>return 1 / (1 + std::exp(-x));\<close>\<close>

definition LogisticFn :: "scalar \<Rightarrow> scalar" where
  "LogisticFn x = 1 / (1 + exp (- x))"

text \<open>
  \<^verbatim>\<open>return std::sqrt(std::pow(x - c, 2) + std::pow(a, 2));\<close>
  The exponent is the integer literal 2, so \<^verbatim>\<open>std::pow(y, 2)\<close> is the square of \<open>y\<close>,
  also for a negative \<open>y\<close>.
\<close>

definition MultiquadraticsFn :: "scalar \<Rightarrow> scalar \<Rightarrow> scalar \<Rightarrow> scalar" where
  "MultiquadraticsFn x c a = sqrt ((x - c) ^ 2 + a ^ 2)"


text \<open>\<^verbatim>\<open>return x / (1 + std::exp(-x));\<close>\<close>

definition SigmoidLinearUnitFn :: "scalar \<Rightarrow> scalar" where
  "SigmoidLinearUnitFn x = x / (1 + exp (- x))"

text \<open>\<^verbatim>\<open>return std::log(1 + std::exp(x));\<close>\<close>

definition SoftplusFn :: "scalar \<Rightarrow> scalar" where
  "SoftplusFn x = ln (1 + exp x)"

subsection \<open>The function on a sequence\<close>

text \<open>
  \<^verbatim>\<open>inline T MaxoutFn(std::vector<T> x) { return std::max_element(x.begin, x.end); }\<close>

  \<^verbatim>\<open>std::max_element\<close> belongs to the C++ standard library, not to the header. Over a
  range \<open>[first, last)\<close> it returns \<open>last\<close> when the range is empty, and otherwise
  walks the range once, keeping the iterator of the first element that no later one
  exceeds under \<open><\<close>. An iterator into the vector is its offset from \<open>begin()\<close>; the
  end iterator of a vector of \<open>n\<close> elements has offset \<open>n\<close>.
\<close>

datatype iterator = Iterator (offset: nat)

text \<open>
  The loop of \<^verbatim>\<open>std::max_element\<close>: \<^verbatim>\<open>for (; first != last; ++first) if (*largest < *first)
  largest = first;\<close> The first argument is what is left of the range, \<open>lv\<close> is
  \<^verbatim>\<open>*largest\<close>, and \<open>first\<close> is the offset of the head of what is left.
\<close>

fun max_element_loop :: "'a::linorder list \<Rightarrow> 'a \<Rightarrow> nat \<Rightarrow> nat \<Rightarrow> nat" where
  "max_element_loop [] lv largest first = largest"
| "max_element_loop (y # ys) lv largest first =
     (if lv < y then max_element_loop ys y first (Suc first)
      else max_element_loop ys lv largest (Suc first))"

definition max_element :: "'a::linorder list \<Rightarrow> iterator" where
  "max_element x =
     (case x of
        [] \<Rightarrow> Iterator 0
      | y # ys \<Rightarrow> Iterator (max_element_loop ys y 0 1))"

text \<open>
  The body of \<^verbatim>\<open>MaxoutFn\<close> is the single return statement above. It has no test of
  \<^verbatim>\<open>x.empty()\<close>, no \<^verbatim>\<open>throw\<close> and no other exit, so every call takes the one return
  path; \<^verbatim>\<open>InvalidArgument\<close> is the failure the specification asks for, and no branch
  of the source produces it. The source writes \<^verbatim>\<open>x.begin\<close> and \<^verbatim>\<open>x.end\<close> without
  the call parentheses and returns the iterator where a \<^verbatim>\<open>T\<close> is declared; the value
  of the return expression, read with \<^verbatim>\<open>begin()\<close> and \<^verbatim>\<open>end()\<close>, is the iterator of
  \<^verbatim>\<open>std::max_element\<close>, and the model returns that iterator: the vector is never
  dereferenced.
\<close>

datatype failure = InvalidArgument

definition MaxoutFn :: "scalar list \<Rightarrow> failure + iterator" where
  "MaxoutFn x = Inr (max_element x)"

section \<open>Comparison and selection\<close>

text \<open>
  C3. \<^verbatim>\<open>RectifiedLinearUnitFn\<close> returns 0 for every \<open>x \<le> 0\<close> and \<open>x\<close> itself for every
  \<open>x > 0\<close>; in particular it maps \<open>-1\<close> to 0, 0 to 0 and 3.5 to 3.5.
\<close>

theorem RectifiedLinearUnitFn_cases:
  "(x \<le> 0 \<longrightarrow> RectifiedLinearUnitFn x = 0) \<and>
   (x > 0 \<longrightarrow> RectifiedLinearUnitFn x = x) \<and>
   RectifiedLinearUnitFn (- 1) = 0 \<and>
   RectifiedLinearUnitFn 0 = 0 \<and>
   RectifiedLinearUnitFn 3.5 = 3.5"
  by (simp add: RectifiedLinearUnitFn_def)

theorem RectifiedLinearUnitFn_cases_witness:
  "(- 2 :: real) \<le> 0 \<and> RectifiedLinearUnitFn (- 2) = 0 \<and>
   (7 :: real) > 0 \<and> RectifiedLinearUnitFn 7 = 7"
  using RectifiedLinearUnitFn_cases [of "- 2"] RectifiedLinearUnitFn_cases [of 7]
  by simp

text \<open>
  C4. \<^verbatim>\<open>BinaryStepFn\<close> returns 0 for every \<open>x < 0\<close> and 1 for every \<open>x \<ge> 0\<close>, zero
  included; in particular it maps \<open>-0.001\<close> to 0, 0 to 1 and 5 to 1.
\<close>

theorem BinaryStepFn_cases:
  "(x < 0 \<longrightarrow> BinaryStepFn x = 0) \<and>
   (x \<ge> 0 \<longrightarrow> BinaryStepFn x = 1) \<and>
   BinaryStepFn (- 0.001) = 0 \<and>
   BinaryStepFn 0 = 1 \<and>
   BinaryStepFn 5 = 1"
  by (simp add: BinaryStepFn_def)

theorem BinaryStepFn_cases_witness:
  "(- 3 :: real) < 0 \<and> BinaryStepFn (- 3) = 0 \<and>
   (2 :: real) \<ge> 0 \<and> BinaryStepFn 2 = 1"
  using BinaryStepFn_cases [of "- 3"] BinaryStepFn_cases [of 2]
  by simp

section \<open>The scaled exponential linear unit\<close>



section \<open>The maximum of a sequence\<close>

subsection \<open>What \<^verbatim>\<open>std::max_element\<close> returns\<close>

text \<open>
  The loop keeps, for the part of the range already visited (\<open>pre\<close>), the offset of
  an element equal to its maximum; at the end of the range that offset is the result.
\<close>

lemma max_element_loop_spec:
  "pre \<noteq> [] \<Longrightarrow> length pre = first \<Longrightarrow> largest < first \<Longrightarrow>
   (pre @ ys) ! largest = lv \<Longrightarrow> lv = Max (set pre) \<Longrightarrow>
   max_element_loop ys lv largest first < length (pre @ ys) \<and>
   (pre @ ys) ! max_element_loop ys lv largest first = Max (set (pre @ ys))"
proof (induction ys arbitrary: pre first largest lv)
  case Nil
  then show ?case by simp
next
  case (Cons y ys)
  let ?pre = "pre @ [y]"
  have whole: "?pre @ ys = pre @ y # ys" by simp
  have mx: "Max (set ?pre) = max y (Max (set pre))"
    using Cons.prems(1) by simp
  show ?case
  proof (cases "lv < y")
    case True
    have "(?pre @ ys) ! first = y"
      using Cons.prems(2) by (simp add: nth_append)
    moreover have "y = Max (set ?pre)"
      using mx True Cons.prems(5) by simp
    ultimately have
      "max_element_loop ys y first (Suc first) < length (?pre @ ys) \<and>
       (?pre @ ys) ! max_element_loop ys y first (Suc first) = Max (set (?pre @ ys))"
      using Cons.prems(2) by (intro Cons.IH) simp_all
    with True show ?thesis
      by (simp only: whole max_element_loop.simps if_True)
  next
    case False
    have "(?pre @ ys) ! largest = lv"
      using Cons.prems(4) by simp
    moreover have "lv = Max (set ?pre)"
      using mx False Cons.prems(5) by (auto simp: max_def)
    ultimately have
      "max_element_loop ys lv largest (Suc first) < length (?pre @ ys) \<and>
       (?pre @ ys) ! max_element_loop ys lv largest (Suc first) = Max (set (?pre @ ys))"
      using Cons.prems(2,3) by (intro Cons.IH) simp_all
    with False show ?thesis
      by (simp only: whole max_element_loop.simps if_False)
  qed
qed

text \<open>
  On a non-empty vector the iterator of \<^verbatim>\<open>std::max_element\<close> points into the vector,
  at an element equal to the maximum; on the empty vector it is the end iterator.
  The maximum itself is reached only by dereferencing the iterator.
\<close>

lemma max_element_position:
  assumes "x \<noteq> []"
  shows "offset (max_element x) < length x \<and> x ! offset (max_element x) = Max (set x)"
proof -
  from assms obtain y ys where x: "x = y # ys"
    by (cases x) auto
  have "max_element_loop ys y 0 1 < length ([y] @ ys) \<and>
        ([y] @ ys) ! max_element_loop ys y 0 1 = Max (set ([y] @ ys))"
    by (rule max_element_loop_spec) simp_all
  then show ?thesis
    by (simp add: x max_element_def)
qed

lemma max_element_empty: "max_element ([] :: 'a::linorder list) = Iterator 0"
  by (simp add: max_element_def)

subsection \<open>What \<^verbatim>\<open>MaxoutFn\<close> returns\<close>

text \<open>
  C1. The claim is that \<^verbatim>\<open>MaxoutFn\<close> returns the maximum element, 9 on the sequence
  3, 1, 4, 1, 5, 9, 2, 6, which is also what the comment above the function says
  (\<^verbatim>\<open>f(x) = max xi\<close>). The return statement does not dereference the iterator of
  \<^verbatim>\<open>std::max_element\<close>: on this sequence its value is the iterator at offset 5, the
  place where the 9 stands, not the 9.
\<close>

theorem MaxoutFn_sample_is_iterator:
  "MaxoutFn [3, 1, 4, 1, 5, 9, 2, 6] = Inr (Iterator 5) \<and>
   [3, 1, 4, 1, 5, 9, 2, 6 :: scalar] ! 5 = 9"
  by (simp add: MaxoutFn_def max_element_def)

text \<open>
  C2, as claimed: \<^verbatim>\<open>MaxoutFn\<close> signals an invalid-argument failure exactly on the
  empty sequence. On the empty sequence the body reaches its return statement like
  on any other, with the end iterator; no failure is signalled.
\<close>

theorem MaxoutFn_empty_no_failure:
  "MaxoutFn [] = Inr (Iterator 0) \<and> MaxoutFn [] \<noteq> Inl InvalidArgument"
  by (simp add: MaxoutFn_def max_element_def)

text \<open>
  C2, amended: \<^verbatim>\<open>MaxoutFn\<close> has no emptiness check and signals no failure on any
  sequence, empty or not.
\<close>

theorem MaxoutFn_never_signals: "MaxoutFn x \<noteq> Inl e"
  by (simp add: MaxoutFn_def)

section \<open>The formulas over the real numbers\<close>

text \<open>
  The facts below hold for the formulas over the real numbers. They are facts about
  the formulas only: in binary floating point each operation rounds, a sum or a
  square can lose its small operand altogether, and \<^verbatim>\<open>std::exp\<close> overflows to
  infinity for a large argument, after which the quotient of
  \<^verbatim>\<open>HyperbolicTangentFn\<close> is not a number.
\<close>

lemma HyperbolicTangentFn_eq_tanh_real: "HyperbolicTangentFn x = tanh x"
  by (simp add: HyperbolicTangentFn_def tanh_altdef)

lemma HyperbolicTangentFn_zero_and_odd_real:
  "HyperbolicTangentFn 0 = 0 \<and> HyperbolicTangentFn (- x) = - HyperbolicTangentFn x"
proof
  show "HyperbolicTangentFn 0 = 0"
    by (simp add: HyperbolicTangentFn_def)
next
  have "exp (- x) - exp x = - (exp x - exp (- x))"
    by simp
  moreover have "exp (- x) + exp x = exp x + exp (- x)"
    by simp
  ultimately show "HyperbolicTangentFn (- x) = - HyperbolicTangentFn x"
    unfolding HyperbolicTangentFn_def by (simp only: minus_minus minus_divide_left)
qed

lemma SoftplusFn_above_RectifiedLinearUnitFn_real:
  "RectifiedLinearUnitFn x < SoftplusFn x"
proof -
  have "0 < ln (1 + exp x)"
    by (rule ln_gt_zero) simp
  moreover have "ln (exp x) < ln (1 + exp x)"
    by (rule ln_strict_mono) simp_all
  then have "x < ln (1 + exp x)" by simp
  ultimately show ?thesis
    by (simp add: RectifiedLinearUnitFn_def SoftplusFn_def)
qed

lemma SigmoidLinearUnitFn_eq_times_LogisticFn_real:
  "SigmoidLinearUnitFn x = x * LogisticFn x"
  by (simp add: SigmoidLinearUnitFn_def LogisticFn_def)

lemma MultiquadraticsFn_lower_bound_real:
  "\<bar>a\<bar> \<le> MultiquadraticsFn x c a \<and> 0 \<le> MultiquadraticsFn x c a"
proof -
  have "sqrt (a ^ 2) \<le> sqrt ((x - c) ^ 2 + a ^ 2)"
    by (rule real_sqrt_le_mono) simp
  then have "\<bar>a\<bar> \<le> MultiquadraticsFn x c a"
    by (simp add: MultiquadraticsFn_def)
  then show ?thesis by linarith
qed

end
